theory Spec2Isabelle
  imports Main "HOL-Library.AList" "HOL-Library.Word"
begin

unbundle bit_operations_syntax

section \<open>Baggage codec (package internal/otel/baggage)\<close>

text \<open>
  The dynamic sampling context calls \<^verbatim>\<open>baggage.Parse\<close>, \<^verbatim>\<open>baggage.NewMember\<close>,
  \<^verbatim>\<open>baggage.New\<close>, \<^verbatim>\<open>Baggage.Members\<close>, \<^verbatim>\<open>Baggage.String\<close>, \<^verbatim>\<open>Member.Key\<close> and
  \<^verbatim>\<open>Member.Value\<close>. The package itself is not among the sources at hand, so this
  section follows section 4.1 of the specification. Where the specification leaves a
  choice open the choice made here is named in the comment of the definition.
\<close>

datatype error = ParseError | EncodeError

text \<open>
  Modelled from the spec: the baggage member, a (key, value) pair. The text after the
  first semicolon of a parsed segment is kept verbatim in \<open>Properties\<close>; a member
  made by \<open>NewMember\<close> has none.
\<close>

record Member =
  Key :: string
  Value :: string
  Properties :: "string option"

text \<open>
  Modelled from the spec: the baggage document, an ordered sequence of members as parsed.
\<close>

datatype Baggage = Baggage (Members: "Member list")

text \<open>
  Modelled from the spec: the implementation limits of a document (member count and
  total byte length). The specification calls them producer-defined constants and gives
  no value, so they are parameters of the model.
\<close>

record Limits =
  maxMembers :: nat
  maxBytes :: nat

subsection \<open>Percent-encoding\<close>

definition hexDigits :: string where
  "hexDigits = ''0123456789ABCDEF''"

definition hexDigit :: "nat \<Rightarrow> char" where
  "hexDigit n = hexDigits ! (n mod 16)"

definition hexVal :: "char \<Rightarrow> nat option" where
  "hexVal c =
     (let n = of_char c :: nat in
      if 48 \<le> n \<and> n \<le> 57 then Some (n - 48)
      else if 65 \<le> n \<and> n \<le> 70 then Some (n - 55)
      else if 97 \<le> n \<and> n \<le> 102 then Some (n - 87)
      else None)"

text \<open>
  Modelled from the spec: which bytes the wire grammar writes literally is not stated.
  Here letters, digits and the four marks \<open>- _ . ~\<close> are literal and every other
  byte is escaped as \<open>%XX\<close>.
\<close>

definition unreserved :: "char \<Rightarrow> bool" where
  "unreserved c =
     (let n = of_char c :: nat in
      (48 \<le> n \<and> n \<le> 57) \<or> (65 \<le> n \<and> n \<le> 90) \<or> (97 \<le> n \<and> n \<le> 122)
      \<or> c = CHR ''-'' \<or> c = CHR ''_'' \<or> c = CHR ''.'' \<or> c = CHR ''~'')"

fun percentEncode :: "string \<Rightarrow> string" where
  "percentEncode [] = []"
| "percentEncode (c # cs) =
     (if unreserved c then c # percentEncode cs
      else CHR ''%'' # hexDigit (of_char c div 16) # hexDigit (of_char c mod 16)
             # percentEncode cs)"

text \<open>
  Modelled from the spec: percent-decoding fails on a \<open>%\<close> that is not followed by
  two hexadecimal digits.
\<close>

fun percentDecode :: "string \<Rightarrow> string option" where
  "percentDecode [] = Some []"
| "percentDecode (c # cs) =
     (if c = CHR ''%'' then
        (case cs of
           h # l # rest \<Rightarrow>
             (case (hexVal h, hexVal l) of
                (Some a, Some b) \<Rightarrow> map_option ((#) (char_of (16 * a + b))) (percentDecode rest)
              | _ \<Rightarrow> None)
         | _ \<Rightarrow> None)
      else map_option ((#) c) (percentDecode cs))"

subsection \<open>Parsing\<close>

text \<open>Modelled from the spec: the whitespace trimmed around commas and semicolons is
  the optional whitespace of a header value, space and horizontal tab.\<close>

definition isSpace :: "char \<Rightarrow> bool" where
  "isSpace c = (c = CHR '' '' \<or> c = CHR 0x09)"

definition trim :: "string \<Rightarrow> string" where
  "trim s = rev (dropWhile isSpace (rev (dropWhile isSpace s)))"

fun splitOn :: "char \<Rightarrow> string \<Rightarrow> string list" where
  "splitOn d [] = [[]]"
| "splitOn d (c # cs) =
     (if c = d then [] # splitOn d cs
      else (case splitOn d cs of
              s # ss \<Rightarrow> (c # s) # ss
            | [] \<Rightarrow> [[c]]))"

definition cut :: "char \<Rightarrow> string \<Rightarrow> string \<times> string option" where
  "cut d s =
     (takeWhile (\<lambda>c. c \<noteq> d) s,
      case dropWhile (\<lambda>c. c \<noteq> d) s of [] \<Rightarrow> None | _ # r \<Rightarrow> Some r)"

text \<open>
  Modelled from the spec: one segment is split on its first \<open>;\<close> into the
  \<open>key=value\<close> pair and the optional properties, the pair on its first \<open>=\<close>; key
  and value are percent-decoded. The segment is rejected when it has no \<open>=\<close>, when
  decoding fails, or when the key is empty.
\<close>

definition parseMember :: "string \<Rightarrow> error + Member" where
  "parseMember seg =
     (case cut CHR '';'' (trim seg) of
        (kv, props) \<Rightarrow>
          (case cut CHR ''='' (trim kv) of
             (k, None) \<Rightarrow> Inl ParseError
           | (k, Some v) \<Rightarrow>
               (case (percentDecode k, percentDecode v) of
                  (Some k', Some v') \<Rightarrow>
                    if k' = [] then Inl ParseError
                    else Inr \<lparr>Key = k', Value = v', Properties = map_option trim props\<rparr>
                | _ \<Rightarrow> Inl ParseError)))"

fun parseMembers :: "string list \<Rightarrow> error + Member list" where
  "parseMembers [] = Inr []"
| "parseMembers (s # ss) =
     (case parseMember s of
        Inl e \<Rightarrow> Inl e
      | Inr m \<Rightarrow> (case parseMembers ss of Inl e \<Rightarrow> Inl e | Inr ms \<Rightarrow> Inr (m # ms)))"

text \<open>
  Modelled from the spec: \<open>parse\<close> splits the header on commas and parses every
  segment; one bad segment fails the whole document. The empty header is the document
  with no member (the freeze-on-receipt property of the specification speaks of headers
  with zero members).
\<close>

definition Parse :: "string \<Rightarrow> error + Baggage" where
  "Parse raw =
     (if raw = [] then Inr (Baggage [])
      else (case parseMembers (splitOn CHR '','' raw) of
              Inl e \<Rightarrow> Inl e
            | Inr ms \<Rightarrow> Inr (Baggage ms)))"

subsection \<open>Building and serialising\<close>

text \<open>
  Modelled from the spec: \<open>newMember\<close> fails when the key is empty or holds a
  character the wire grammar cannot carry. The specification names control characters
  as an example; here a key character must be a visible ASCII character
  (\<open>0x21\<close> to \<open>0x7E\<close>). The value alone cannot fail.
\<close>

definition keyChar :: "char \<Rightarrow> bool" where
  "keyChar c = (let n = of_char c :: nat in 33 \<le> n \<and> n \<le> 126)"

definition NewMember :: "string \<Rightarrow> string \<Rightarrow> error + Member" where
  "NewMember k v =
     (if k = [] \<or> \<not> list_all keyChar k then Inl EncodeError
      else Inr \<lparr>Key = k, Value = v, Properties = None\<rparr>)"

definition memberString :: "Member \<Rightarrow> string" where
  "memberString m =
     percentEncode (Key m) @ ''='' @ percentEncode (Value m)
       @ (case Properties m of None \<Rightarrow> [] | Some p \<Rightarrow> CHR '';'' # p)"

fun joinWith :: "string \<Rightarrow> string list \<Rightarrow> string" where
  "joinWith sep [] = []"
| "joinWith sep [s] = s"
| "joinWith sep (s # t # ss) = s @ sep @ joinWith sep (t # ss)"

text \<open>Modelled from the spec: \<open>serialize\<close> joins the members with \<open>, \<close> in the
  order given.\<close>

definition BaggageString :: "Baggage \<Rightarrow> string" where
  "BaggageString b = joinWith '', '' (map memberString (Members b))"

text \<open>
  Modelled from the spec: \<open>newDocument\<close> fails when the serialised form would exceed
  the limits on member count or total byte length.
\<close>

definition New :: "Limits \<Rightarrow> Member list \<Rightarrow> error + Baggage" where
  "New lim ms =
     (if maxMembers lim < length ms \<or> maxBytes lim < length (BaggageString (Baggage ms))
      then Inl EncodeError
      else Inr (Baggage ms))"

section \<open>Dynamic sampling context\<close>

definition sentryPrefix :: string where
  "sentryPrefix = ''sentry-''"

text \<open>
  \<^verbatim>\<open>Entries map[string]string\<close> is an association list with one pair for each key.
  \<^verbatim>\<open>entries[k] = v\<close> is \<^const>\<open>AList.update\<close>, which replaces the value of a key
  already present and adds the pair otherwise. The order of the list stands for the
  order in which one \<^verbatim>\<open>range\<close> loop happens to visit the map.
\<close>

record DynamicSamplingContext =
  Entries :: "(string \<times> string) list"
  Frozen :: bool

text \<open>\<^verbatim>\<open>strings.HasPrefix\<close> and \<^verbatim>\<open>strings.TrimPrefix\<close>.\<close>

definition HasPrefix :: "string \<Rightarrow> string \<Rightarrow> bool" where
  "HasPrefix s p = (length p \<le> length s \<and> take (length p) s = p)"

definition TrimPrefix :: "string \<Rightarrow> string \<Rightarrow> string" where
  "TrimPrefix s p = (if HasPrefix s p then drop (length p) s else s)"

text \<open>The loop over \<^verbatim>\<open>bag.Members()\<close> in \<^verbatim>\<open>DynamicSamplingContextFromHeader\<close>.\<close>

fun headerEntries :: "Member list \<Rightarrow> (string \<times> string) list \<Rightarrow> (string \<times> string) list" where
  "headerEntries [] entries = entries"
| "headerEntries (member # members) entries =
     (let k = Key member; v = Value member in
      if HasPrefix k sentryPrefix
      then headerEntries members (AList.update (TrimPrefix k sentryPrefix) v entries)
      else headerEntries members entries)"

definition DynamicSamplingContextFromHeader :: "string \<Rightarrow> error + DynamicSamplingContext" where
  "DynamicSamplingContextFromHeader header =
     (case Parse header of
        Inl err \<Rightarrow> Inl err
      | Inr bag \<Rightarrow>
          (let entries = headerEntries (Members bag) [] in
           Inr \<lparr>Entries = entries, Frozen = (length entries > 0)\<rparr>))"

text \<open>\<^verbatim>\<open>HasEntries\<close> and \<^verbatim>\<open>IsFrozen\<close>.\<close>

definition HasEntries :: "DynamicSamplingContext \<Rightarrow> bool" where
  "HasEntries d = (length (Entries d) > 0)"

definition IsFrozen :: "DynamicSamplingContext \<Rightarrow> bool" where
  "IsFrozen d = Frozen d"

subsection \<open>Serialisation\<close>

text \<open>
  The loop of \<^verbatim>\<open>String\<close> over \<^verbatim>\<open>d.Entries\<close>: an entry whose member cannot be built
  is passed over (\<^verbatim>\<open>continue\<close>), the others are appended to \<^verbatim>\<open>members\<close>.
  \<open>String\<close> has the limits of the codec as its first argument, since \<^verbatim>\<open>baggage.New\<close>
  depends on them.
\<close>

fun stringMembers :: "(string \<times> string) list \<Rightarrow> Member list \<Rightarrow> Member list" where
  "stringMembers [] members = members"
| "stringMembers ((k, entry) # rest) members =
     (case NewMember (sentryPrefix @ k) entry of
        Inl err \<Rightarrow> stringMembers rest members
      | Inr member \<Rightarrow> stringMembers rest (members @ [member]))"

definition String :: "Limits \<Rightarrow> DynamicSamplingContext \<Rightarrow> string" where
  "String lim d =
     (let members = stringMembers (Entries d) [] in
      if length members > 0 then
        (case New lim members of
           Inl err \<Rightarrow> []
         | Inr baggage \<Rightarrow> BaggageString baggage)
      else [])"

subsection \<open>Spans, clients and scopes\<close>

text \<open>
  A \<^verbatim>\<open>float64\<close> is its IEEE 754 bit pattern. \<^verbatim>\<open>x != 0\<close> is false for the two zeros
  (all bits clear but possibly the sign) and true for every other pattern.
\<close>

type_synonym float64 = "64 word"

definition float64_ne_zero :: "float64 \<Rightarrow> bool" where
  "float64_ne_zero x = (x AND 0x7FFFFFFFFFFFFFFF \<noteq> 0)"

text \<open>\<^verbatim>\<open>strconv.FormatBool\<close>.\<close>

definition FormatBool :: "bool \<Rightarrow> string" where
  "FormatBool b = (if b then ''true'' else ''false'')"

text \<open>
  Modelled from the spec: the trace identifier is a fixed-width sequence of bytes and
  \<^verbatim>\<open>TraceID.String\<close> is its canonical lowercase hexadecimal string.
\<close>

type_synonym TraceID = "8 word list"

definition lowerHexDigit :: "nat \<Rightarrow> char" where
  "lowerHexDigit n = ''0123456789abcdef'' ! (n mod 16)"

fun TraceIDString :: "TraceID \<Rightarrow> string" where
  "TraceIDString [] = []"
| "TraceIDString (b # bs) =
     lowerHexDigit (unat b div 16) # lowerHexDigit (unat b mod 16) # TraceIDString bs"

text \<open>
  Modelled from the spec: the client holds the ingestion public key (in its DSN, which
  may be absent), the release, the environment and the default trace sample rate; the
  scope holds an ambient trace identifier. Only the fields read by the dynamic sampling
  context are kept.
\<close>

record Dsn =
  publicKey :: string

record ClientOptions =
  Release :: string
  Environment :: string
  TracesSampleRate :: float64

record Client =
  dsn :: "Dsn option"
  options :: ClientOptions

record PropagationContext =
  propagationTraceID :: TraceID

record Scope =
  propagationContext :: PropagationContext

text \<open>A hub: \<^verbatim>\<open>hub.Scope()\<close> and \<^verbatim>\<open>hub.Client()\<close> may each be \<^verbatim>\<open>nil\<close>.\<close>

record Hub =
  hubScope :: "Scope option"
  hubClient :: "Client option"

text \<open>
  Modelled from the spec: the span exposes its trace identifier, its sampling decision
  (\<open>Sampled\<close> stands for \<^verbatim>\<open>span.Sampled.Bool()\<close>), its resolved sample rate, its
  name, the classification of the source of the name, whether it is the transaction
  (\<^verbatim>\<open>span.IsTransaction()\<close>), and the hub found in its context
  (\<^verbatim>\<open>hubFromContext(span.Context())\<close>).
\<close>

record Span =
  TraceID :: TraceID
  Name :: string
  Source :: string
  Sampled :: bool
  sampleRate :: float64
  isTransaction :: bool
  hub :: Hub

subsection \<open>From a transaction and from a scope\<close>

text \<open>
  Two things the function uses are taken as parameters: \<open>FormatFloat\<close> stands for
  \<^verbatim>\<open>strconv.FormatFloat(x, 'f', -1, 64)\<close> of the Go library, and \<open>SourceURL\<close> for
  the constant of that name, whose declaration is not among the sources at hand.
\<close>

definition DynamicSamplingContextFromTransaction ::
    "(float64 \<Rightarrow> string) \<Rightarrow> string \<Rightarrow> Span \<Rightarrow> DynamicSamplingContext" where
  "DynamicSamplingContextFromTransaction FormatFloat SourceURL span =
     (case (hubClient (hub span), hubScope (hub span)) of
        (Some client, Some scope) \<Rightarrow>
          (let entries = [];
               entries = (let traceID = TraceIDString (TraceID span) in
                          if traceID \<noteq> [] then AList.update ''trace_id'' traceID entries
                          else entries);
               entries = (if float64_ne_zero (sampleRate span)
                          then AList.update ''sample_rate'' (FormatFloat (sampleRate span)) entries
                          else entries);
               entries = (case dsn client of
                            Some d \<Rightarrow>
                              if publicKey d \<noteq> []
                              then AList.update ''public_key'' (publicKey d) entries
                              else entries
                          | None \<Rightarrow> entries);
               entries = (if Release (options client) \<noteq> []
                          then AList.update ''release'' (Release (options client)) entries
                          else entries);
               entries = (if Environment (options client) \<noteq> []
                          then AList.update ''environment'' (Environment (options client)) entries
                          else entries);
               entries = (if Source span \<noteq> [] \<and> Source span \<noteq> SourceURL
                          then (if isTransaction span
                                then AList.update ''transaction'' (Name span) entries
                                else entries)
                          else entries);
               entries = AList.update ''sampled'' (FormatBool (Sampled span)) entries
           in \<lparr>Entries = entries, Frozen = True\<rparr>)
      | _ \<Rightarrow> \<lparr>Entries = [], Frozen = False\<rparr>)"

definition DynamicSamplingContextFromScope ::
    "(float64 \<Rightarrow> string) \<Rightarrow> Scope option \<Rightarrow> Client option \<Rightarrow> DynamicSamplingContext" where
  "DynamicSamplingContextFromScope FormatFloat scope client =
     (case (client, scope) of
        (Some client, Some scope) \<Rightarrow>
          (let entries = [];
               entries = (let traceID = TraceIDString (propagationTraceID (propagationContext scope)) in
                          if traceID \<noteq> [] then AList.update ''trace_id'' traceID entries
                          else entries);
               entries = (if float64_ne_zero (TracesSampleRate (options client))
                          then AList.update ''sample_rate''
                                 (FormatFloat (TracesSampleRate (options client))) entries
                          else entries);
               entries = (case dsn client of
                            Some d \<Rightarrow>
                              if publicKey d \<noteq> []
                              then AList.update ''public_key'' (publicKey d) entries
                              else entries
                          | None \<Rightarrow> entries);
               entries = (if Release (options client) \<noteq> []
                          then AList.update ''release'' (Release (options client)) entries
                          else entries);
               entries = (if Environment (options client) \<noteq> []
                          then AList.update ''environment'' (Environment (options client)) entries
                          else entries)
           in \<lparr>Entries = entries, Frozen = True\<rparr>)
      | _ \<Rightarrow> \<lparr>Entries = [], Frozen = False\<rparr>)"

section \<open>Continuing from an OpenTelemetry span (package otel)\<close>

text \<open>
  Modelled from the spec: an external span exposes a fixed-width identifier and whether
  it is recording; the registry \<^verbatim>\<open>sentrySpanMap\<close> is an associative store from the
  identifier to the local span, and \<^verbatim>\<open>Get\<close> answers with the span or with its absence;
  the request context carries the active external span and the active local span, if
  any, and \<^verbatim>\<open>sentry.SpanToContext\<close> makes a span the active local span of a context.
\<close>

type_synonym SpanID = "64 word"

record OtelSpan =
  SpanID :: SpanID
  IsRecording :: bool

record Context =
  otelSpan :: "OtelSpan option"
  sentrySpan :: "Span option"

record Request =
  requestContext :: Context

definition SpanFromContext :: "Context \<Rightarrow> OtelSpan option" where
  "SpanFromContext c = otelSpan c"

definition SpanToContext :: "Context \<Rightarrow> Span \<Rightarrow> Context" where
  "SpanToContext c span = c\<lparr>sentrySpan := Some span\<rparr>"

definition WithContext :: "Request \<Rightarrow> Context \<Rightarrow> Request" where
  "WithContext r c = r\<lparr>requestContext := c\<rparr>"

text \<open>
  A handler takes the response writer and the request and leaves the response writer
  changed. The middleware reads the registry, which is its first argument here.
\<close>

definition ContinueFromOtel ::
    "(SpanID \<rightharpoonup> Span) \<Rightarrow> ('w \<Rightarrow> Request \<Rightarrow> 'w) \<Rightarrow> 'w \<Rightarrow> Request \<Rightarrow> 'w" where
  "ContinueFromOtel sentrySpanMap next w r =
     (let r = (case SpanFromContext (requestContext r) of
                 Some otelTrace \<Rightarrow>
                   if IsRecording otelTrace then
                     (case sentrySpanMap (SpanID otelTrace) of
                        Some transaction \<Rightarrow>
                          WithContext r (SpanToContext (requestContext r) transaction)
                      | None \<Rightarrow> r)
                   else r
               | None \<Rightarrow> r)
      in next w r)"

section \<open>Notions used in the statements and proofs\<close>

text \<open>The characters that structure a header: the three separators and whitespace.\<close>

definition delimiter :: "char \<Rightarrow> bool" where
  "delimiter c = (c = CHR '','' \<or> c = CHR '';'' \<or> c = CHR ''='' \<or> isSpace c)"

text \<open>A member with a key and without properties, as \<open>NewMember\<close> makes them.\<close>

definition plain :: "Member \<Rightarrow> bool" where
  "plain m = (Key m \<noteq> [] \<and> Properties m = None)"

text \<open>The members of the entries whose construction succeeds, in the order of the
  entries.\<close>

definition survivors :: "(string \<times> string) list \<Rightarrow> Member list" where
  "survivors es =
     List.map_filter
       (\<lambda>(k, v). case NewMember (sentryPrefix @ k) v of Inl err \<Rightarrow> None | Inr m \<Rightarrow> Some m) es"

text \<open>One conditional assignment \<^verbatim>\<open>if c { entries[k] = v }\<close>.\<close>

definition putIf ::
    "bool \<Rightarrow> string \<Rightarrow> string \<Rightarrow> (string \<times> string) list \<Rightarrow> (string \<times> string) list" where
  "putIf c k v es = (if c then AList.update k v es else es)"

subsection \<open>The example scenario of the specification\<close>

text \<open>
  A client with public key \<open>abc\<close>, release \<open>1.2.3\<close> and environment \<open>testing\<close>,
  and a transaction named \<open>GET /\<close> with trace identifier
  \<open>4c79f60c11214eb38604f4ae0781bfb2\<close>. The sample rate and the source of the name
  are left open. \<open>exampleFormatFloat\<close> formats the three rates used below
  (\<open>0.25\<close> is \<open>0x3FD0000000000000\<close>, \<open>1\<close> is \<open>0x3FF0000000000000\<close>).
\<close>

definition exampleClient :: Client where
  "exampleClient =
     \<lparr>dsn = Some \<lparr>publicKey = ''abc''\<rparr>,
      options = \<lparr>Release = ''1.2.3'', Environment = ''testing'',
                 TracesSampleRate = 0x3FF0000000000000\<rparr>\<rparr>"

definition exampleScope :: Scope where
  "exampleScope =
     \<lparr>propagationContext =
        \<lparr>propagationTraceID = [0x4c, 0x79, 0xf6, 0x0c, 0x11, 0x21, 0x4e, 0xb3,
                                0x86, 0x04, 0xf4, 0xae, 0x07, 0x81, 0xbf, 0xb2]\<rparr>\<rparr>"

definition exampleSpan :: "float64 \<Rightarrow> string \<Rightarrow> Span" where
  "exampleSpan rate source =
     \<lparr>TraceID = [0x4c, 0x79, 0xf6, 0x0c, 0x11, 0x21, 0x4e, 0xb3,
                 0x86, 0x04, 0xf4, 0xae, 0x07, 0x81, 0xbf, 0xb2],
      Name = ''GET /'', Source = source, Sampled = True, sampleRate = rate,
      isTransaction = True,
      hub = \<lparr>hubScope = Some exampleScope, hubClient = Some exampleClient\<rparr>\<rparr>"

definition exampleFormatFloat :: "float64 \<Rightarrow> string" where
  "exampleFormatFloat x =
     (if x = 0x3FD0000000000000 then ''0.25''
      else if x = 0x3FF0000000000000 then ''1''
      else ''0'')"

definition exampleLimits :: Limits where
  "exampleLimits = \<lparr>maxMembers = 64, maxBytes = 8192\<rparr>"

definition exampleRequest :: "OtelSpan option \<Rightarrow> Request" where
  "exampleRequest s = \<lparr>requestContext = \<lparr>otelSpan = s, sentrySpan = None\<rparr>\<rparr>"

section \<open>Properties of parsing a header\<close>

lemma HasPrefix_iff: "HasPrefix s p \<longleftrightarrow> (\<exists>r. s = p @ r)"
  unfolding HasPrefix_def
  by (metis append_eq_conv_conj append_take_drop_id le_add1 length_append)

lemma TrimPrefix_append: "TrimPrefix (p @ r) p = r"
  by (simp add: TrimPrefix_def HasPrefix_def)

lemma set_update_pair:
  "(k, v) \<in> set (AList.update k' v' es) \<Longrightarrow> (k = k' \<and> v = v') \<or> (k, v) \<in> set es"
  by (induction es) (auto split: if_splits)

text \<open>The keys after the loop: those already there, and the stripped keys of the
  members in the namespace.\<close>

lemma headerEntries_keys:
  "fst ` set (headerEntries ms es) =
     fst ` set es \<union> {k. \<exists>m\<in>set ms. Key m = sentryPrefix @ k}"
proof (induction ms arbitrary: es)
  case Nil
  show ?case by simp
next
  case (Cons m ms)
  show ?case
  proof (cases "HasPrefix (Key m) sentryPrefix")
    case True
    then obtain r where r: "Key m = sentryPrefix @ r" by (auto simp: HasPrefix_iff)
    show ?thesis using True r
      by (auto simp: Cons.IH Let_def TrimPrefix_append dom_update)
  next
    case False
    then have "\<And>k. Key m \<noteq> sentryPrefix @ k" by (auto simp: HasPrefix_iff)
    then show ?thesis using False by (auto simp: Cons.IH Let_def)
  qed
qed

text \<open>The value found under a key after the loop: that of the last member with the
  prefixed key, or the value from before when there is no such member.\<close>

lemma headerEntries_lookup:
  "map_of (headerEntries ms es) k =
     (case filter (\<lambda>m. Key m = sentryPrefix @ k) ms of
        [] \<Rightarrow> map_of es k
      | f # fs \<Rightarrow> Some (Value (last (f # fs))))"
proof (induction ms arbitrary: es)
  case Nil
  show ?case by simp
next
  case (Cons m ms)
  show ?case
  proof (cases "HasPrefix (Key m) sentryPrefix")
    case True
    then obtain r where r: "Key m = sentryPrefix @ r" by (auto simp: HasPrefix_iff)
    show ?thesis using True r
      by (auto simp: Cons.IH Let_def TrimPrefix_append update_conv' split: list.splits)
  next
    case False
    then have "\<And>k. Key m \<noteq> sentryPrefix @ k" by (auto simp: HasPrefix_iff)
    then show ?thesis using False by (auto simp: Cons.IH Let_def)
  qed
qed

lemma headerEntries_pairs:
  "(k, v) \<in> set (headerEntries ms es) \<Longrightarrow>
     (k, v) \<in> set es \<or> (\<exists>m\<in>set ms. Key m = sentryPrefix @ k \<and> Value m = v)"
proof (induction ms arbitrary: es)
  case Nil
  then show ?case by simp
next
  case (Cons m ms)
  show ?case
  proof (cases "HasPrefix (Key m) sentryPrefix")
    case True
    then obtain r where r: "Key m = sentryPrefix @ r" by (auto simp: HasPrefix_iff)
    from Cons.prems True r
    have "(k, v) \<in> set (headerEntries ms (AList.update r (Value m) es))"
      by (simp add: Let_def TrimPrefix_append)
    from Cons.IH[OF this] show ?thesis
      using r by (auto dest: set_update_pair)
  next
    case False
    with Cons.prems have "(k, v) \<in> set (headerEntries ms es)" by (simp add: Let_def)
    from Cons.IH[OF this] show ?thesis by auto
  qed
qed

lemma headerEntries_distinct:
  "distinct (map fst es) \<Longrightarrow> distinct (map fst (headerEntries ms es))"
  by (induction ms arbitrary: es) (auto simp: Let_def distinct_update)

lemma headerEntries_Nil_iff:
  "headerEntries ms es = [] \<longleftrightarrow> es = [] \<and> \<not> (\<exists>m\<in>set ms. HasPrefix (Key m) sentryPrefix)"
  by (induction ms arbitrary: es) (auto simp: Let_def)

subsection \<open>Headers used as examples\<close>

lemma Parse_ex1:
  "Parse ''sentry-a=1, other=2'' =
     Inr (Baggage [\<lparr>Key = ''sentry-a'', Value = ''1'', Properties = None\<rparr>,
                   \<lparr>Key = ''other'', Value = ''2'', Properties = None\<rparr>])"
  by code_simp

lemma FromHeader_ex1:
  "DynamicSamplingContextFromHeader ''sentry-a=1, other=2'' =
     Inr \<lparr>Entries = [(''a'', ''1'')], Frozen = True\<rparr>"
  by code_simp

lemma Parse_ex2:
  "Parse ''other=2'' = Inr (Baggage [\<lparr>Key = ''other'', Value = ''2'', Properties = None\<rparr>])"
  by code_simp

lemma Parse_ex3:
  "Parse ''sentry-a=1, sentry-b=2, sentry-a=3'' =
     Inr (Baggage [\<lparr>Key = ''sentry-a'', Value = ''1'', Properties = None\<rparr>,
                   \<lparr>Key = ''sentry-b'', Value = ''2'', Properties = None\<rparr>,
                   \<lparr>Key = ''sentry-a'', Value = ''3'', Properties = None\<rparr>])"
  by code_simp

lemma FromHeader_ex3:
  "DynamicSamplingContextFromHeader ''sentry-a=1, sentry-b=2, sentry-a=3'' =
     Inr \<lparr>Entries = [(''a'', ''3''), (''b'', ''2'')], Frozen = True\<rparr>"
  by code_simp

subsection \<open>Freeze on receipt\<close>

text \<open>
  C2. Whenever the header parses, \<open>DynamicSamplingContextFromHeader\<close> returns a
  context, and that context is frozen exactly when the parsed document has at least one
  member whose key starts with \<open>sentry-\<close>. A header with no such member gives an
  unfrozen context, also when the header has other members.
\<close>

theorem FromHeader_frozen_iff:
  assumes "Parse header = Inr bag"
  shows "\<exists>d. DynamicSamplingContextFromHeader header = Inr d \<and>
             (Frozen d \<longleftrightarrow> (\<exists>m\<in>set (Members bag). HasPrefix (Key m) sentryPrefix))"
  using assms
  by (simp add: DynamicSamplingContextFromHeader_def Let_def headerEntries_Nil_iff)

theorem FromHeader_frozen_iff_witness:
  "(\<exists>d. DynamicSamplingContextFromHeader ''sentry-a=1, other=2'' = Inr d \<and> Frozen d) \<and>
   (\<exists>d. DynamicSamplingContextFromHeader ''other=2'' = Inr d \<and> \<not> Frozen d)"
  using FromHeader_frozen_iff[OF Parse_ex1] FromHeader_frozen_iff[OF Parse_ex2]
  by (simp add: HasPrefix_def sentryPrefix_def)

subsection \<open>Namespace filtering\<close>

text \<open>
  C4. Whenever the header parses, the keys of \<open>Entries\<close> are exactly the strings
  \<open>k\<close> for which the parsed document has a member with key \<open>sentry-\<close> followed by
  \<open>k\<close>, and every pair of \<open>Entries\<close> is the stripped key and the value of such a
  member. So a member outside the namespace puts nothing into \<open>Entries\<close>, and the
  keys are stored without the prefix.
\<close>

theorem FromHeader_keys:
  assumes "Parse header = Inr bag"
    and "DynamicSamplingContextFromHeader header = Inr d"
  shows "fst ` set (Entries d) = {k. \<exists>m\<in>set (Members bag). Key m = sentryPrefix @ k} \<and>
         (\<forall>(k, v)\<in>set (Entries d).
             \<exists>m\<in>set (Members bag). Key m = sentryPrefix @ k \<and> Value m = v)"
proof -
  from assms have e: "Entries d = headerEntries (Members bag) []"
    by (auto simp: DynamicSamplingContextFromHeader_def Let_def)
  have "fst ` set (Entries d) = {k. \<exists>m\<in>set (Members bag). Key m = sentryPrefix @ k}"
    by (simp add: e headerEntries_keys)
  moreover have "\<exists>m\<in>set (Members bag). Key m = sentryPrefix @ k \<and> Value m = v"
    if "(k, v) \<in> set (Entries d)" for k v
    using headerEntries_pairs[of k v "Members bag" "[]"] that by (simp add: e)
  ultimately show ?thesis by blast
qed

theorem FromHeader_keys_witness:
  "Parse ''sentry-a=1, other=2'' =
     Inr (Baggage [\<lparr>Key = ''sentry-a'', Value = ''1'', Properties = None\<rparr>,
                   \<lparr>Key = ''other'', Value = ''2'', Properties = None\<rparr>]) \<and>
   DynamicSamplingContextFromHeader ''sentry-a=1, other=2'' =
     Inr \<lparr>Entries = [(''a'', ''1'')], Frozen = True\<rparr> \<and>
   {k. ''sentry-a'' = sentryPrefix @ k \<or> ''other'' = sentryPrefix @ k} = {''a''}"
  using FromHeader_keys[OF Parse_ex1 FromHeader_ex1] Parse_ex1 FromHeader_ex1
  by simp

subsection \<open>Duplicate keys\<close>

text \<open>
  C10. Whenever the header parses and the parsed document has one or more members with
  the key \<open>sentry-\<close> followed by \<open>k\<close>, in particular two or more, \<open>Entries\<close> holds
  under \<open>k\<close> the value of the last of them in the sequence of members.
\<close>

theorem FromHeader_last_wins:
  assumes "Parse header = Inr bag"
    and "DynamicSamplingContextFromHeader header = Inr d"
    and "filter (\<lambda>m. Key m = sentryPrefix @ k) (Members bag) \<noteq> []"
  shows "map_of (Entries d) k =
           Some (Value (last (filter (\<lambda>m. Key m = sentryPrefix @ k) (Members bag))))"
  using assms
  by (auto simp: DynamicSamplingContextFromHeader_def Let_def headerEntries_lookup
           split: list.splits)

theorem FromHeader_last_wins_witness:
  "Parse ''sentry-a=1, sentry-b=2, sentry-a=3'' =
     Inr (Baggage [\<lparr>Key = ''sentry-a'', Value = ''1'', Properties = None\<rparr>,
                   \<lparr>Key = ''sentry-b'', Value = ''2'', Properties = None\<rparr>,
                   \<lparr>Key = ''sentry-a'', Value = ''3'', Properties = None\<rparr>]) \<and>
   DynamicSamplingContextFromHeader ''sentry-a=1, sentry-b=2, sentry-a=3'' =
     Inr \<lparr>Entries = [(''a'', ''3''), (''b'', ''2'')], Frozen = True\<rparr> \<and>
   map_of [(''a'', ''3''), (''b'', ''2'')] ''a'' = Some ''3''"
  using FromHeader_last_wins[OF Parse_ex3 FromHeader_ex3, of "''a''"] Parse_ex3 FromHeader_ex3
  by (simp add: sentryPrefix_def)

section \<open>Properties of the context of a transaction and of a scope\<close>

lemma if_putIf: "(if c then AList.update k v es else es) = putIf c k v es"
  by (simp add: putIf_def)

lemma if_if_putIf:
  "(if a then (if b then AList.update k v es else es) else es) = putIf (a \<and> b) k v es"
  by (simp add: putIf_def)

lemma case_putIf:
  "(case x of Some d \<Rightarrow> if P d then AList.update k (f d) es else es | None \<Rightarrow> es) =
   putIf (case x of Some d \<Rightarrow> P d | None \<Rightarrow> False) k (case x of Some d \<Rightarrow> f d | None \<Rightarrow> []) es"
  by (simp add: putIf_def split: option.splits)

lemma map_of_putIf:
  "map_of (putIf c k v es) k' = (if c \<and> k' = k then Some v else map_of es k')"
  by (simp add: putIf_def update_conv')

text \<open>With client and scope present the function is a chain of seven assignments, six
  of them conditional.\<close>

lemma FromTransaction_putIf:
  assumes "hubClient (hub span) = Some client" and "hubScope (hub span) = Some scope"
  shows "DynamicSamplingContextFromTransaction FormatFloat SourceURL span =
    \<lparr>Entries =
       AList.update ''sampled'' (FormatBool (Sampled span))
        (putIf (Source span \<noteq> [] \<and> Source span \<noteq> SourceURL \<and> isTransaction span)
           ''transaction'' (Name span)
        (putIf (Environment (options client) \<noteq> []) ''environment'' (Environment (options client))
        (putIf (Release (options client) \<noteq> []) ''release'' (Release (options client))
        (putIf (case dsn client of None \<Rightarrow> False | Some d \<Rightarrow> publicKey d \<noteq> [])
           ''public_key'' (case dsn client of None \<Rightarrow> [] | Some d \<Rightarrow> publicKey d)
        (putIf (float64_ne_zero (sampleRate span)) ''sample_rate'' (FormatFloat (sampleRate span))
        (putIf (TraceIDString (TraceID span) \<noteq> []) ''trace_id'' (TraceIDString (TraceID span))
           [])))))),
     Frozen = True\<rparr>"
  by (simp add: DynamicSamplingContextFromTransaction_def assms if_putIf if_if_putIf case_putIf
         split del: if_split)
     (simp add: Let_def)

lemma FromScope_putIf:
  "DynamicSamplingContextFromScope FormatFloat (Some scope) (Some client) =
    \<lparr>Entries =
        (putIf (Environment (options client) \<noteq> []) ''environment'' (Environment (options client))
        (putIf (Release (options client) \<noteq> []) ''release'' (Release (options client))
        (putIf (case dsn client of None \<Rightarrow> False | Some d \<Rightarrow> publicKey d \<noteq> [])
           ''public_key'' (case dsn client of None \<Rightarrow> [] | Some d \<Rightarrow> publicKey d)
        (putIf (float64_ne_zero (TracesSampleRate (options client))) ''sample_rate''
           (FormatFloat (TracesSampleRate (options client)))
        (putIf (TraceIDString (propagationTraceID (propagationContext scope)) \<noteq> []) ''trace_id''
           (TraceIDString (propagationTraceID (propagationContext scope)))
           []))))),
     Frozen = True\<rparr>"
  by (simp add: DynamicSamplingContextFromScope_def if_putIf if_if_putIf case_putIf
         split del: if_split)
     (simp add: Let_def)

subsection \<open>The example scenario\<close>

lemma exampleSpan_hub:
  "hubClient (hub (exampleSpan rate source)) = Some exampleClient"
  "hubScope (hub (exampleSpan rate source)) = Some exampleScope"
  by (simp_all add: exampleSpan_def)

lemma float64_ne_zero_examples:
  "float64_ne_zero 0x3FD0000000000000" "float64_ne_zero 0x3FF0000000000000"
  "\<not> float64_ne_zero 0" "\<not> float64_ne_zero 0x8000000000000000"
  by (simp_all add: float64_ne_zero_def)

lemma exampleTraceID:
  "TraceIDString [0x4c, 0x79, 0xf6, 0x0c, 0x11, 0x21, 0x4e, 0xb3,
                  0x86, 0x04, 0xf4, 0xae, 0x07, 0x81, 0xbf, 0xb2]
     = ''4c79f60c11214eb38604f4ae0781bfb2''"
  by code_simp

text \<open>The transaction of the example, with rate \<open>1\<close> and a name that does not come
  from the URL, gives the seven entries the specification lists.\<close>

lemma example_FromTransaction:
  "DynamicSamplingContextFromTransaction exampleFormatFloat ''url''
     (exampleSpan 0x3FF0000000000000 ''route'') =
   \<lparr>Entries = [(''trace_id'', ''4c79f60c11214eb38604f4ae0781bfb2''),
               (''sample_rate'', ''1''), (''public_key'', ''abc''),
               (''release'', ''1.2.3''), (''environment'', ''testing''),
               (''transaction'', ''GET /''), (''sampled'', ''true'')],
    Frozen = True\<rparr>"
  by code_simp

lemma example_FromTransaction_quarter:
  "map_of (Entries (DynamicSamplingContextFromTransaction exampleFormatFloat ''url''
             (exampleSpan 0x3FD0000000000000 ''route''))) ''sample_rate'' = Some ''0.25''"
  by code_simp

lemma example_FromTransaction_url:
  "DynamicSamplingContextFromTransaction exampleFormatFloat ''url''
     (exampleSpan 0 ''url'') =
   \<lparr>Entries = [(''trace_id'', ''4c79f60c11214eb38604f4ae0781bfb2''),
               (''public_key'', ''abc''), (''release'', ''1.2.3''),
               (''environment'', ''testing''), (''sampled'', ''true'')],
    Frozen = True\<rparr>"
  by code_simp

subsection \<open>The sample rate\<close>

text \<open>
  C5. For a span whose hub has a client and a scope: when the sample rate of the span
  is zero (\<^verbatim>\<open>sampleRate != 0\<close> is false) the context has no \<open>sample_rate\<close> entry;
  otherwise it has one, and its value is the rate formatted by
  \<^verbatim>\<open>strconv.FormatFloat(rate, 'f', -1, 64)\<close>, the shortest decimal string that reads
  back as the same number, without exponent. In particular, with a formatter that
  writes the rate \<open>0.25\<close> as \<open>0.25\<close>, that rate gives the entry \<open>0.25\<close>.
\<close>

theorem FromTransaction_sample_rate:
  assumes "hubClient (hub span) = Some client" and "hubScope (hub span) = Some scope"
  shows "(\<not> float64_ne_zero (sampleRate span) \<longrightarrow>
            map_of (Entries (DynamicSamplingContextFromTransaction FormatFloat SourceURL span))
              ''sample_rate'' = None) \<and>
         (float64_ne_zero (sampleRate span) \<longrightarrow>
            map_of (Entries (DynamicSamplingContextFromTransaction FormatFloat SourceURL span))
              ''sample_rate'' = Some (FormatFloat (sampleRate span)))"
  by (simp add: FromTransaction_putIf[OF assms] update_conv' map_of_putIf)

theorem FromTransaction_sample_rate_witness:
  "map_of (Entries (DynamicSamplingContextFromTransaction exampleFormatFloat ''url''
             (exampleSpan 0x3FD0000000000000 ''route''))) ''sample_rate'' = Some ''0.25'' \<and>
   map_of (Entries (DynamicSamplingContextFromTransaction exampleFormatFloat ''url''
             (exampleSpan 0 ''route''))) ''sample_rate'' = None"
  using FromTransaction_sample_rate[where span = "exampleSpan 0x3FD0000000000000 ''route''"
          and FormatFloat = exampleFormatFloat and SourceURL = "''url''",
          OF exampleSpan_hub]
        FromTransaction_sample_rate[where span = "exampleSpan 0 ''route''"
          and FormatFloat = exampleFormatFloat and SourceURL = "''url''",
          OF exampleSpan_hub]
        float64_ne_zero_examples
  by (simp add: exampleSpan_def exampleFormatFloat_def)

subsection \<open>The transaction name\<close>

text \<open>
  C6. For a span whose hub has a client and a scope: if the context has a
  \<open>transaction\<close> entry, then its value is the name of the span, the span is the
  transaction and the source of its name is not \<open>SourceURL\<close>. In particular a span
  whose name comes from the URL gives a context without a \<open>transaction\<close> entry,
  whatever the name.
\<close>

theorem FromTransaction_transaction:
  assumes "hubClient (hub span) = Some client" and "hubScope (hub span) = Some scope"
  shows "(\<forall>v. map_of (Entries (DynamicSamplingContextFromTransaction FormatFloat SourceURL span))
                 ''transaction'' = Some v \<longrightarrow>
              v = Name span \<and> isTransaction span \<and> Source span \<noteq> SourceURL) \<and>
         (Source span = SourceURL \<longrightarrow>
            map_of (Entries (DynamicSamplingContextFromTransaction FormatFloat SourceURL span))
              ''transaction'' = None)"
  by (simp add: FromTransaction_putIf[OF assms] update_conv' map_of_putIf)

theorem FromTransaction_transaction_witness:
  "Source (exampleSpan 0 ''url'') = ''url'' \<and>
   map_of (Entries (DynamicSamplingContextFromTransaction exampleFormatFloat ''url''
             (exampleSpan 0 ''url''))) ''transaction'' = None \<and>
   map_of (Entries (DynamicSamplingContextFromTransaction exampleFormatFloat ''url''
             (exampleSpan 0x3FF0000000000000 ''route''))) ''transaction'' = Some ''GET /'' \<and>
   ''GET /'' = Name (exampleSpan 0x3FF0000000000000 ''route'') \<and>
   isTransaction (exampleSpan 0x3FF0000000000000 ''route'') \<and>
   Source (exampleSpan 0x3FF0000000000000 ''route'') \<noteq> ''url''"
proof -
  have s: "Source (exampleSpan 0 ''url'') = ''url''" by (simp add: exampleSpan_def)
  have e: "map_of (Entries (DynamicSamplingContextFromTransaction exampleFormatFloat ''url''
             (exampleSpan 0x3FF0000000000000 ''route''))) ''transaction'' = Some ''GET /''"
    by (simp add: example_FromTransaction)
  from FromTransaction_transaction[where span = "exampleSpan 0 ''url''"
          and FormatFloat = exampleFormatFloat and SourceURL = "''url''",
          OF exampleSpan_hub]
       FromTransaction_transaction[where span = "exampleSpan 0x3FF0000000000000 ''route''"
          and FormatFloat = exampleFormatFloat and SourceURL = "''url''",
          OF exampleSpan_hub]
       s e
  show ?thesis by blast
qed

subsection \<open>The sampling decision\<close>

text \<open>
  C7. For a span whose hub has a client and a scope, the context always has a
  \<open>sampled\<close> entry, and its value is the string \<open>true\<close> or \<open>false\<close> according to
  the sampling decision of the span, whatever the other fields are.
\<close>

theorem FromTransaction_sampled:
  assumes "hubClient (hub span) = Some client" and "hubScope (hub span) = Some scope"
  shows "map_of (Entries (DynamicSamplingContextFromTransaction FormatFloat SourceURL span))
           ''sampled'' = Some (if Sampled span then ''true'' else ''false'')"
  by (simp add: FromTransaction_putIf[OF assms] update_conv' FormatBool_def)

theorem FromTransaction_sampled_witness:
  "map_of (Entries (DynamicSamplingContextFromTransaction exampleFormatFloat ''url''
             (exampleSpan 0 ''url''))) ''sampled'' = Some ''true'' \<and>
   map_of (Entries (DynamicSamplingContextFromTransaction exampleFormatFloat ''url''
             ((exampleSpan 0 ''url'')\<lparr>Sampled := False\<rparr>))) ''sampled'' = Some ''false''"
  using FromTransaction_sampled[where span = "exampleSpan 0 ''url''"
          and FormatFloat = exampleFormatFloat and SourceURL = "''url''",
          OF exampleSpan_hub]
        FromTransaction_sampled[where span = "(exampleSpan 0 ''url'')\<lparr>Sampled := False\<rparr>"
          and client = exampleClient and scope = exampleScope
          and FormatFloat = exampleFormatFloat and SourceURL = "''url''"]
  by (simp add: exampleSpan_def)

subsection \<open>Absent client or scope\<close>

text \<open>
  C8. When the client or the scope is absent, \<open>DynamicSamplingContextFromTransaction\<close>
  and \<open>DynamicSamplingContextFromScope\<close> both return the context with no entry that is
  not frozen. Both functions return a context and nothing else, so there is no error.
\<close>

theorem absent_client_or_scope:
  "(hubClient (hub span) = None \<or> hubScope (hub span) = None \<longrightarrow>
      DynamicSamplingContextFromTransaction FormatFloat SourceURL span
        = \<lparr>Entries = [], Frozen = False\<rparr>) \<and>
   (client = None \<or> scope = None \<longrightarrow>
      DynamicSamplingContextFromScope FormatFloat scope client
        = \<lparr>Entries = [], Frozen = False\<rparr>)"
  by (auto simp: DynamicSamplingContextFromTransaction_def DynamicSamplingContextFromScope_def
           split: option.splits)

theorem absent_client_or_scope_witness:
  "DynamicSamplingContextFromTransaction exampleFormatFloat ''url''
     ((exampleSpan 0x3FF0000000000000 ''route'')\<lparr>hub := \<lparr>hubScope = Some exampleScope, hubClient = None\<rparr>\<rparr>)
     = \<lparr>Entries = [], Frozen = False\<rparr> \<and>
   DynamicSamplingContextFromTransaction exampleFormatFloat ''url''
     ((exampleSpan 0x3FF0000000000000 ''route'')\<lparr>hub := \<lparr>hubScope = None, hubClient = Some exampleClient\<rparr>\<rparr>)
     = \<lparr>Entries = [], Frozen = False\<rparr> \<and>
   DynamicSamplingContextFromScope exampleFormatFloat None (Some exampleClient)
     = \<lparr>Entries = [], Frozen = False\<rparr> \<and>
   DynamicSamplingContextFromScope exampleFormatFloat (Some exampleScope) None
     = \<lparr>Entries = [], Frozen = False\<rparr>"
  using absent_client_or_scope[where
          span = "(exampleSpan 0x3FF0000000000000 ''route'')\<lparr>hub := \<lparr>hubScope = Some exampleScope, hubClient = None\<rparr>\<rparr>"
          and client = "Some exampleClient" and scope = None
          and FormatFloat = exampleFormatFloat and SourceURL = "''url''"]
        absent_client_or_scope[where
          span = "(exampleSpan 0x3FF0000000000000 ''route'')\<lparr>hub := \<lparr>hubScope = None, hubClient = Some exampleClient\<rparr>\<rparr>"
          and client = None and scope = "Some exampleScope"
          and FormatFloat = exampleFormatFloat and SourceURL = "''url''"]
  by simp

section \<open>Properties of serialisation\<close>

lemma stringMembers_survivors: "stringMembers es acc = acc @ survivors es"
  by (induction es arbitrary: acc)
     (auto simp: survivors_def List.map_filter_simps split: sum.splits)

lemma survivors_append: "survivors (es1 @ es2) = survivors es1 @ survivors es2"
  by (simp add: survivors_def List.map_filter_def)

lemma survivors_failed:
  "isl (NewMember (sentryPrefix @ k) v) \<Longrightarrow> survivors ((k, v) # es) = survivors es"
  by (cases "NewMember (sentryPrefix @ k) v") (simp_all add: survivors_def List.map_filter_simps)

lemma String_survivors:
  "String lim d =
     (case survivors (Entries d) of
        [] \<Rightarrow> []
      | m # ms \<Rightarrow> (case New lim (m # ms) of Inl err \<Rightarrow> [] | Inr b \<Rightarrow> BaggageString b))"
  by (simp add: String_def stringMembers_survivors split: list.splits)

lemma NewMember_Inr:
  "NewMember k v = Inr m \<Longrightarrow> m = \<lparr>Key = k, Value = v, Properties = None\<rparr> \<and> k \<noteq> []"
  by (auto simp: NewMember_def split: if_splits)

lemma survivors_all:
  assumes "\<forall>(k, v)\<in>set es. \<not> isl (NewMember (sentryPrefix @ k) v)"
  shows "survivors es =
           map (\<lambda>(k, v). \<lparr>Key = sentryPrefix @ k, Value = v, Properties = None\<rparr>) es"
  using assms
proof (induction es)
  case Nil
  show ?case by (simp add: survivors_def List.map_filter_simps)
next
  case (Cons e es)
  obtain k v where e: "e = (k, v)" by (cases e)
  from Cons.prems e obtain m where m: "NewMember (sentryPrefix @ k) v = Inr m"
    by (cases "NewMember (sentryPrefix @ k) v") auto
  have "survivors (e # es) = m # survivors es"
    by (simp add: survivors_def List.map_filter_simps e m)
  then show ?case using Cons e NewMember_Inr[OF m] by simp
qed

subsection \<open>Examples\<close>

lemma String_ex_skip:
  "String exampleLimits
     \<lparr>Entries = [(''a'', ''1''), ([CHR 0x01], ''2''), (''b'', ''3'')], Frozen = False\<rparr>
     = ''sentry-a=1, sentry-b=3''"
  by code_simp

lemma String_ex_limit:
  "String \<lparr>maxMembers = 1, maxBytes = 8192\<rparr>
     \<lparr>Entries = [(''a'', ''1''), (''b'', ''3'')], Frozen = False\<rparr> = []"
  by code_simp

lemma NewMember_ex_fails: "isl (NewMember (sentryPrefix @ [CHR 0x01]) ''2'')"
  by code_simp

lemma New_ex_fails:
  "isl (New \<lparr>maxMembers = 1, maxBytes = 8192\<rparr>
          (stringMembers [(''a'', ''1''), (''b'', ''3'')] []))"
  by code_simp

subsection \<open>Best effort\<close>

text \<open>
  C9. \<open>String\<close> returns a string for every context; no error comes out of it. What
  it serialises is the document of the members that could be built, in the order of the
  entries: an entry whose member cannot be built is passed over, and the result is the
  same as without that entry. With no entry, with no member left, or when the document
  cannot be built, the result is the empty string.
\<close>

theorem String_best_effort:
  "String lim d =
     (case survivors (Entries d) of
        [] \<Rightarrow> []
      | m # ms \<Rightarrow> (case New lim (m # ms) of Inl err \<Rightarrow> [] | Inr b \<Rightarrow> BaggageString b)) \<and>
   (isl (NewMember (sentryPrefix @ k) v) \<longrightarrow>
      String lim (d\<lparr>Entries := es1 @ (k, v) # es2\<rparr>) = String lim (d\<lparr>Entries := es1 @ es2\<rparr>)) \<and>
   (Entries d = [] \<longrightarrow> String lim d = []) \<and>
   (isl (New lim (stringMembers (Entries d) [])) \<longrightarrow> String lim d = [])"
proof -
  have "String lim (d\<lparr>Entries := es1 @ (k, v) # es2\<rparr>) = String lim (d\<lparr>Entries := es1 @ es2\<rparr>)"
    if "isl (NewMember (sentryPrefix @ k) v)"
    using survivors_failed[OF that] by (simp add: String_survivors survivors_append)
  moreover have "String lim d = []" if "Entries d = []"
    using that by (simp add: String_def)
  moreover have "String lim d = []" if "isl (New lim (stringMembers (Entries d) []))"
    using that by (cases "New lim (stringMembers (Entries d) [])") (simp_all add: String_def Let_def)
  ultimately show ?thesis using String_survivors by blast
qed

theorem String_best_effort_witness:
  "isl (NewMember (sentryPrefix @ [CHR 0x01]) ''2'') \<and>
   String exampleLimits
     \<lparr>Entries = [(''a'', ''1''), ([CHR 0x01], ''2''), (''b'', ''3'')], Frozen = False\<rparr>
     = ''sentry-a=1, sentry-b=3'' \<and>
   String exampleLimits \<lparr>Entries = [(''a'', ''1''), (''b'', ''3'')], Frozen = False\<rparr>
     = ''sentry-a=1, sentry-b=3'' \<and>
   String exampleLimits \<lparr>Entries = [], Frozen = False\<rparr> = [] \<and>
   String \<lparr>maxMembers = 1, maxBytes = 8192\<rparr>
     \<lparr>Entries = [(''a'', ''1''), (''b'', ''3'')], Frozen = False\<rparr> = []"
proof -
  note A = String_best_effort[where lim = exampleLimits
          and d = "\<lparr>Entries = [], Frozen = False\<rparr>"
          and k = "[CHR 0x01]" and v = "''2''"
          and ?es1.0 = "[(''a'', ''1'')]" and ?es2.0 = "[(''b'', ''3'')]"]
  note B = String_best_effort[where lim = "\<lparr>maxMembers = 1, maxBytes = 8192\<rparr>"
          and d = "\<lparr>Entries = [(''a'', ''1''), (''b'', ''3'')], Frozen = False\<rparr>"
          and k = "[CHR 0x01]" and v = "''2''"
          and ?es1.0 = "[]" and ?es2.0 = "[]"]
  have skip: "String exampleLimits
        \<lparr>Entries = [(''a'', ''1''), ([CHR 0x01], ''2''), (''b'', ''3'')], Frozen = False\<rparr>
      = String exampleLimits \<lparr>Entries = [(''a'', ''1''), (''b'', ''3'')], Frozen = False\<rparr>"
    using A[THEN conjunct2, THEN conjunct1, rule_format, OF NewMember_ex_fails] by simp
  have none: "String exampleLimits \<lparr>Entries = [], Frozen = False\<rparr> = []"
    using A[THEN conjunct2, THEN conjunct2, THEN conjunct1] by simp
  have "isl (New \<lparr>maxMembers = 1, maxBytes = 8192\<rparr>
          (stringMembers
             (Entries \<lparr>Entries = [(''a'', ''1''), (''b'', ''3'')], Frozen = False\<rparr>) []))"
    using New_ex_fails by (simp only: DynamicSamplingContext.simps)
  then have full: "String \<lparr>maxMembers = 1, maxBytes = 8192\<rparr>
        \<lparr>Entries = [(''a'', ''1''), (''b'', ''3'')], Frozen = False\<rparr> = []"
    by (rule B[THEN conjunct2, THEN conjunct2, THEN conjunct2, rule_format])
  show ?thesis
    using skip none full NewMember_ex_fails String_ex_skip by simp
qed

section \<open>The codec reads back what it writes\<close>

text \<open>A percent-encoded string decodes to the string it came from, and holds no
  separator and no whitespace.\<close>

lemma hexVal_hexDigit: "a < 16 \<Longrightarrow> hexVal (hexDigit a) = Some a"
proof -
  assume "a < 16"
  then have "a \<in> {0,1,2,3,4,5,6,7,8,9,10,11,12,13,14,15}" by (simp; arith)
  then show ?thesis
    by (auto simp: hexVal_def hexDigit_def hexDigits_def)
qed

lemma of_char_lt_256: "(of_char c :: nat) < 256"
  by (cases c) (simp add: of_char_def)

lemma unreserved_not_percent: "unreserved c \<Longrightarrow> c \<noteq> CHR ''%''"
  by (auto simp: unreserved_def)

lemma percentDecode_percentEncode: "percentDecode (percentEncode s) = Some s"
proof (induction s)
  case Nil
  show ?case by simp
next
  case (Cons c cs)
  show ?case
  proof (cases "unreserved c")
    case True
    then show ?thesis using Cons.IH by (simp add: unreserved_not_percent)
  next
    case False
    have d: "(of_char c :: nat) div 16 < 16" using of_char_lt_256[of c] by arith
    have m: "(of_char c :: nat) mod 16 < 16" by simp
    have "char_of (16 * ((of_char c :: nat) div 16) + of_char c mod 16) = c"
      by simp
    then show ?thesis using False Cons.IH
      by (simp add: hexVal_hexDigit[OF d] hexVal_hexDigit[OF m])
  qed
qed


lemma hexDigit_in_hexDigits: "hexDigit n \<in> set hexDigits"
proof -
  have "n mod 16 < length hexDigits" by (simp add: hexDigits_def)
  then show ?thesis unfolding hexDigit_def by (rule nth_mem)
qed

lemma hexDigits_not_delimiter: "\<forall>c\<in>set hexDigits. \<not> delimiter c"
  by (simp add: hexDigits_def delimiter_def isSpace_def)

lemma hexDigit_not_delimiter: "\<not> delimiter (hexDigit n)"
  using hexDigit_in_hexDigits hexDigits_not_delimiter by blast

lemma unreserved_not_delimiter: "unreserved c \<Longrightarrow> \<not> delimiter c"
  by (auto simp: unreserved_def delimiter_def isSpace_def)

lemma percent_not_delimiter: "\<not> delimiter CHR ''%''"
  by (simp add: delimiter_def isSpace_def)

lemma percentEncode_no_delimiter: "c \<in> set (percentEncode s) \<Longrightarrow> \<not> delimiter c"
proof (induction s)
  case Nil
  then show ?case by simp
next
  case (Cons a s)
  then show ?case
    by (auto simp: hexDigit_not_delimiter unreserved_not_delimiter percent_not_delimiter
             split: if_splits)
qed

lemma percentEncode_Nil_iff: "percentEncode s = [] \<longleftrightarrow> s = []"
  by (cases s) auto

lemma splitOn_not_Nil: "splitOn d s \<noteq> []"
  by (induction s) (auto split: list.splits)

lemma splitOn_notin: "d \<notin> set s \<Longrightarrow> splitOn d s = [s]"
  by (induction s) auto

lemma splitOn_append: "d \<notin> set s \<Longrightarrow> splitOn d (s @ d # t) = s # splitOn d t"
  by (induction s) (auto split: list.splits)

lemma splitOn_joinWith:
  assumes "\<forall>s\<in>set (s0 # ss). CHR '','' \<notin> set s" and "CHR '','' \<notin> set p"
  shows "splitOn CHR '','' (p @ joinWith '', '' (s0 # ss)) = (p @ s0) # map ((#) CHR '' '') ss"
  using assms
proof (induction ss arbitrary: p s0)
  case Nil
  then show ?case by (simp add: splitOn_notin)
next
  case (Cons t ss)
  have "splitOn CHR '','' ((p @ s0) @ CHR '','' # ([CHR '' ''] @ joinWith '', '' (t # ss)))
          = (p @ s0) # splitOn CHR '','' ([CHR '' ''] @ joinWith '', '' (t # ss))"
    using Cons.prems by (intro splitOn_append) auto
  moreover have "splitOn CHR '','' ([CHR '' ''] @ joinWith '', '' (t # ss))
          = ([CHR '' ''] @ t) # map ((#) CHR '' '') ss"
    using Cons.prems by (intro Cons.IH) auto
  ultimately show ?case by simp
qed

lemma cut_notin: "d \<notin> set s \<Longrightarrow> cut d s = (s, None)"
proof -
  assume "d \<notin> set s"
  then have "\<forall>x\<in>set s. x \<noteq> d" by auto
  then have t: "takeWhile (\<lambda>c. c \<noteq> d) s = s" and r: "dropWhile (\<lambda>c. c \<noteq> d) s = []"
    by simp_all
  show ?thesis unfolding cut_def t r by simp
qed

lemma cut_append: "d \<notin> set s \<Longrightarrow> cut d (s @ d # t) = (s, Some t)"
proof -
  assume "d \<notin> set s"
  then have "\<forall>x\<in>set s. x \<noteq> d" by auto
  then have t: "takeWhile (\<lambda>c. c \<noteq> d) (s @ d # t) = s"
    and r: "dropWhile (\<lambda>c. c \<noteq> d) (s @ d # t) = d # t"
    by (simp_all add: takeWhile_append2 dropWhile_append2)
  show ?thesis unfolding cut_def t r by simp
qed

lemma dropWhile_hd: "s \<noteq> [] \<Longrightarrow> \<not> P (hd s) \<Longrightarrow> dropWhile P s = s"
  by (cases s) auto

lemma trim_id:
  assumes "s \<noteq> []" and "\<not> isSpace (hd s)" and "\<not> isSpace (last s)"
  shows "trim s = s"
proof -
  have "dropWhile isSpace s = s" using assms by (simp add: dropWhile_hd)
  moreover have "dropWhile isSpace (rev s) = rev s"
    using assms by (intro dropWhile_hd) (simp_all add: hd_rev)
  ultimately show ?thesis by (simp add: trim_def)
qed

lemma trim_space:
  assumes "s \<noteq> []" and "\<not> isSpace (hd s)" and "\<not> isSpace (last s)"
  shows "trim (CHR '' '' # s) = s"
proof -
  have "trim (CHR '' '' # s) = trim s"
    using assms by (simp add: trim_def isSpace_def dropWhile_append dropWhile_hd hd_rev)
  then show ?thesis using assms by (simp add: trim_id)
qed


lemma memberString_plain:
  "memberString \<lparr>Key = k, Value = v, Properties = None\<rparr> =
     percentEncode k @ CHR ''='' # percentEncode v"
  by (simp add: memberString_def)

lemma percentEncode_set:
  "CHR '','' \<notin> set (percentEncode s)" "CHR '';'' \<notin> set (percentEncode s)"
  "CHR ''='' \<notin> set (percentEncode s)"
  using percentEncode_no_delimiter[of _ s] by (auto simp: delimiter_def)

lemma percentEncode_hd: "s \<noteq> [] \<Longrightarrow> \<not> isSpace (hd (percentEncode s))"
  using percentEncode_no_delimiter[of "hd (percentEncode s)" s]
  by (simp add: percentEncode_Nil_iff delimiter_def)

lemma percentEncode_last: "s \<noteq> [] \<Longrightarrow> \<not> isSpace (last (percentEncode s))"
  using percentEncode_no_delimiter[of "last (percentEncode s)" s]
  by (simp add: percentEncode_Nil_iff delimiter_def)

lemma memberString_shape:
  assumes "k \<noteq> []"
  shows "memberString \<lparr>Key = k, Value = v, Properties = None\<rparr> \<noteq> []"
    and "\<not> isSpace (hd (memberString \<lparr>Key = k, Value = v, Properties = None\<rparr>))"
    and "\<not> isSpace (last (memberString \<lparr>Key = k, Value = v, Properties = None\<rparr>))"
    and "CHR '','' \<notin> set (memberString \<lparr>Key = k, Value = v, Properties = None\<rparr>)"
    and "CHR '';'' \<notin> set (memberString \<lparr>Key = k, Value = v, Properties = None\<rparr>)"
proof -
  show "memberString \<lparr>Key = k, Value = v, Properties = None\<rparr> \<noteq> []"
    by (simp add: memberString_plain)
  show "\<not> isSpace (hd (memberString \<lparr>Key = k, Value = v, Properties = None\<rparr>))"
    using assms percentEncode_hd[of k]
    by (simp add: memberString_plain percentEncode_Nil_iff)
  show "\<not> isSpace (last (memberString \<lparr>Key = k, Value = v, Properties = None\<rparr>))"
    using percentEncode_last[of v]
    by (cases "v = []") (simp_all add: memberString_plain percentEncode_Nil_iff isSpace_def)
  show "CHR '','' \<notin> set (memberString \<lparr>Key = k, Value = v, Properties = None\<rparr>)"
    by (simp add: memberString_plain percentEncode_set)
  show "CHR '';'' \<notin> set (memberString \<lparr>Key = k, Value = v, Properties = None\<rparr>)"
    by (simp add: memberString_plain percentEncode_set)
qed

lemma parseMember_trimmed:
  assumes "k \<noteq> []"
    and "trim seg = memberString \<lparr>Key = k, Value = v, Properties = None\<rparr>"
  shows "parseMember seg = Inr \<lparr>Key = k, Value = v, Properties = None\<rparr>"
proof -
  let ?s = "memberString \<lparr>Key = k, Value = v, Properties = None\<rparr>"
  note sh = memberString_shape[OF assms(1), of v]
  have c1: "cut CHR '';'' ?s = (?s, None)" using sh(5) by (rule cut_notin)
  have t: "trim ?s = ?s" using sh(1-3) by (rule trim_id)
  have c2: "cut CHR ''='' ?s = (percentEncode k, Some (percentEncode v))"
    unfolding memberString_plain using percentEncode_set(3) by (rule cut_append)
  show ?thesis
    unfolding parseMember_def assms(2) c1
    by (simp add: t c2 percentDecode_percentEncode assms(1))
qed

lemma parseMember_memberString:
  assumes "k \<noteq> []"
  shows "parseMember (memberString \<lparr>Key = k, Value = v, Properties = None\<rparr>)
           = Inr \<lparr>Key = k, Value = v, Properties = None\<rparr>"
    and "parseMember (CHR '' '' # memberString \<lparr>Key = k, Value = v, Properties = None\<rparr>)
           = Inr \<lparr>Key = k, Value = v, Properties = None\<rparr>"
  using memberString_shape[OF assms, of v]
  by (auto intro!: parseMember_trimmed assms trim_id trim_space)

lemma plain_eq: "plain m \<Longrightarrow> m = \<lparr>Key = Key m, Value = Value m, Properties = None\<rparr>"
  by (cases m) (simp add: plain_def)

lemma parseMembers_map:
  assumes "\<forall>m\<in>set ms. parseMember (f m) = Inr m"
  shows "parseMembers (map f ms) = Inr ms"
  using assms by (induction ms) auto

lemma Parse_BaggageString:
  assumes "\<forall>m\<in>set ms. plain m"
  shows "Parse (BaggageString (Baggage ms)) = Inr (Baggage ms)"
proof (cases ms)
  case Nil
  then show ?thesis by (simp add: Parse_def BaggageString_def)
next
  case (Cons m0 rest)
  have pm: "parseMember (memberString m) = Inr m \<and> parseMember (CHR '' '' # memberString m) = Inr m
            \<and> CHR '','' \<notin> set (memberString m) \<and> memberString m \<noteq> []"
    if "m \<in> set ms" for m
  proof -
    from that assms have p: "plain m" by blast
    then have k: "Key m \<noteq> []" by (simp add: plain_def)
    show ?thesis
      using parseMember_memberString[OF k, of "Value m"] memberString_shape[OF k, of "Value m"]
        plain_eq[OF p] by simp
  qed
  have split: "splitOn CHR '','' ([] @ joinWith '', '' (map memberString (m0 # rest)))
          = ([] @ memberString m0) # map ((#) CHR '' '') (map memberString rest)"
    unfolding list.map using pm Cons by (intro splitOn_joinWith) auto
  have ne: "BaggageString (Baggage ms) \<noteq> []"
    using pm[of m0] Cons by (cases rest) (simp_all add: BaggageString_def)
  have "parseMembers (memberString m0 # map (\<lambda>m. CHR '' '' # memberString m) rest) = Inr (m0 # rest)"
    using pm Cons parseMembers_map[of rest "\<lambda>m. CHR '' '' # memberString m"] by simp
  then show ?thesis
    using ne split Cons by (simp add: Parse_def BaggageString_def comp_def)
qed


lemma update_fresh: "k \<notin> fst ` set es \<Longrightarrow> AList.update k v es = es @ [(k, v)]"
  by (induction es) auto

lemma headerEntries_prefixed:
  assumes "distinct (map fst (acc @ es))"
  shows "headerEntries
           (map (\<lambda>(k, v). \<lparr>Key = sentryPrefix @ k, Value = v, Properties = None\<rparr>) es) acc
         = acc @ es"
  using assms
proof (induction es arbitrary: acc)
  case Nil
  show ?case by simp
next
  case (Cons e es)
  obtain k v where e: "e = (k, v)" by (cases e)
  have fresh: "k \<notin> fst ` set acc" using Cons.prems e by auto
  have d: "distinct (map fst ((acc @ [(k, v)]) @ es))" using Cons.prems e by simp
  show ?case
    using Cons.IH[OF d] e
    by (simp add: Let_def HasPrefix_iff TrimPrefix_append update_fresh[OF fresh])
qed

section \<open>Round trip\<close>

lemma roundtrip_ex_keys:
  "\<forall>(k, v)\<in>set [(''trace_id'', ''4c79f60c11214eb38604f4ae0781bfb2''),
               (''sample_rate'', ''1''), (''public_key'', ''abc''),
               (''release'', ''1.2.3''), (''environment'', ''testing''),
               (''transaction'', ''GET /''), (''sampled'', ''true'')].
      \<not> isl (NewMember (sentryPrefix @ k) v)"
  by code_simp

lemma roundtrip_ex_New:
  "\<not> isl (New exampleLimits
       (stringMembers
          [(''trace_id'', ''4c79f60c11214eb38604f4ae0781bfb2''),
           (''sample_rate'', ''1''), (''public_key'', ''abc''),
           (''release'', ''1.2.3''), (''environment'', ''testing''),
           (''transaction'', ''GET /''), (''sampled'', ''true'')] []))"
  by code_simp

lemma roundtrip_ex_String:
  "String exampleLimits
     (DynamicSamplingContextFromTransaction exampleFormatFloat ''url''
        (exampleSpan 0x3FF0000000000000 ''route'')) =
   ''sentry-trace_id=4c79f60c11214eb38604f4ae0781bfb2, sentry-sample_rate=1, sentry-public_key=abc, sentry-release=1.2.3, sentry-environment=testing, sentry-transaction=GET%20%2F, sentry-sampled=true''"
  by code_simp

text \<open>
  C1, as the claim states it, fails. The context with the entries \<open>a\<close> and the key made
  of the control character \<open>0x01\<close> has non-empty entries; its serialisation leaves the
  second entry out, since no member can be built for that key, and parsing the
  serialisation gives a context that has lost the entry.
\<close>

theorem String_roundtrip_counterexample:
  "DynamicSamplingContextFromHeader
     (String exampleLimits \<lparr>Entries = [(''a'', ''1''), ([CHR 0x01], ''2'')], Frozen = False\<rparr>)
     = Inr \<lparr>Entries = [(''a'', ''1'')], Frozen = True\<rparr> \<and>
   map_of [(''a'', ''1''), ([CHR 0x01], ''2'')] [CHR 0x01] = Some ''2'' \<and>
   map_of [(''a'', ''1'')] [CHR 0x01] = None"
  by code_simp

text \<open>
  C1, amended. Let the context have at least one entry and one pair for each key, let a
  member be built for every entry, and let the document of these members be built
  within the limits. Then parsing the serialisation succeeds and gives the same entries,
  frozen.
\<close>

theorem String_roundtrip:
  assumes "Entries d \<noteq> []"
    and "distinct (map fst (Entries d))"
    and "\<forall>(k, v)\<in>set (Entries d). \<not> isl (NewMember (sentryPrefix @ k) v)"
    and "\<not> isl (New lim (stringMembers (Entries d) []))"
  shows "DynamicSamplingContextFromHeader (String lim d)
           = Inr \<lparr>Entries = Entries d, Frozen = True\<rparr>"
proof -
  let ?mk = "\<lambda>(k, v). \<lparr>Key = sentryPrefix @ k, Value = v, Properties = None\<rparr>"
  let ?ms = "map ?mk (Entries d)"
  have ms: "stringMembers (Entries d) [] = ?ms"
    using survivors_all[OF assms(3)] by (simp add: stringMembers_survivors)
  have ne: "?ms \<noteq> []" using assms(1) by simp
  have new: "New lim ?ms = Inr (Baggage ?ms)"
    using assms(4) unfolding ms by (simp add: New_def split: if_splits)
  have str: "String lim d = BaggageString (Baggage ?ms)"
    using ne by (simp add: String_def ms new)
  have "\<forall>m\<in>set ?ms. plain m"
    by (auto simp: plain_def sentryPrefix_def)
  then have parse: "Parse (BaggageString (Baggage ?ms)) = Inr (Baggage ?ms)"
    by (rule Parse_BaggageString)
  have he: "headerEntries ?ms [] = [] @ Entries d"
    using assms(2) by (intro headerEntries_prefixed) simp
  show ?thesis
    using assms(1) by (simp add: DynamicSamplingContextFromHeader_def str parse he)
qed

theorem String_roundtrip_witness:
  "DynamicSamplingContextFromHeader
     (String exampleLimits
        (DynamicSamplingContextFromTransaction exampleFormatFloat ''url''
           (exampleSpan 0x3FF0000000000000 ''route'')))
   = Inr \<lparr>Entries = [(''trace_id'', ''4c79f60c11214eb38604f4ae0781bfb2''),
                     (''sample_rate'', ''1''), (''public_key'', ''abc''),
                     (''release'', ''1.2.3''), (''environment'', ''testing''),
                     (''transaction'', ''GET /''), (''sampled'', ''true'')],
          Frozen = True\<rparr>"
proof -
  let ?d = "DynamicSamplingContextFromTransaction exampleFormatFloat ''url''
              (exampleSpan 0x3FF0000000000000 ''route'')"
  have 1: "Entries ?d \<noteq> []" by (simp add: example_FromTransaction)
  have 2: "distinct (map fst (Entries ?d))" by (simp add: example_FromTransaction)
  have 3: "\<forall>(k, v)\<in>set (Entries ?d). \<not> isl (NewMember (sentryPrefix @ k) v)"
    using roundtrip_ex_keys by (simp only: example_FromTransaction DynamicSamplingContext.simps simp_thms)
  have 4: "\<not> isl (New exampleLimits (stringMembers (Entries ?d) []))"
    using roundtrip_ex_New by (simp only: example_FromTransaction DynamicSamplingContext.simps simp_thms)
  show ?thesis
    using String_roundtrip[OF 1 2 3 4] by (simp only: example_FromTransaction DynamicSamplingContext.simps simp_thms)
qed

section \<open>Properties of the continuation middleware\<close>

text \<open>
  C3. Let the context of the request carry the external span \<open>otelTrace\<close>. If it is
  recording and the registry maps its identifier to the local span \<open>S\<close>, the
  middleware calls the next handler with the request whose context has \<open>S\<close> as its
  active local span and is otherwise the context of the request. If the external span is
  not recording, or its identifier is not in the registry, or the context carries no
  external span, the next handler is called with the request as it came.
\<close>

theorem ContinueFromOtel_registry:
  "(SpanFromContext (requestContext r) = Some otelTrace \<and> IsRecording otelTrace \<and>
      sentrySpanMap (SpanID otelTrace) = Some S \<longrightarrow>
      ContinueFromOtel sentrySpanMap next w r
        = next w (r\<lparr>requestContext := (requestContext r)\<lparr>sentrySpan := Some S\<rparr>\<rparr>) \<and>
      sentrySpan (requestContext (r\<lparr>requestContext := (requestContext r)\<lparr>sentrySpan := Some S\<rparr>\<rparr>))
        = Some S) \<and>
   (SpanFromContext (requestContext r) = Some otelTrace \<and>
      (\<not> IsRecording otelTrace \<or> sentrySpanMap (SpanID otelTrace) = None) \<longrightarrow>
      ContinueFromOtel sentrySpanMap next w r = next w r) \<and>
   (SpanFromContext (requestContext r) = None \<longrightarrow>
      ContinueFromOtel sentrySpanMap next w r = next w r)"
  by (auto simp: ContinueFromOtel_def WithContext_def SpanToContext_def)

text \<open>
  In the witness the handler answers with the active local span of the request it is
  given; the registry holds one span, under the identifier \<open>42\<close>.
\<close>

theorem ContinueFromOtel_registry_witness:
  "ContinueFromOtel [42 \<mapsto> exampleSpan 0 ''route''] (\<lambda>w r. sentrySpan (requestContext r)) None
     (exampleRequest (Some \<lparr>SpanID = 42, IsRecording = True\<rparr>))
     = Some (exampleSpan 0 ''route'') \<and>
   ContinueFromOtel [42 \<mapsto> exampleSpan 0 ''route''] (\<lambda>w r. sentrySpan (requestContext r)) None
     (exampleRequest (Some \<lparr>SpanID = 42, IsRecording = False\<rparr>)) = None \<and>
   ContinueFromOtel [42 \<mapsto> exampleSpan 0 ''route''] (\<lambda>w r. sentrySpan (requestContext r)) None
     (exampleRequest (Some \<lparr>SpanID = 7, IsRecording = True\<rparr>)) = None \<and>
   ContinueFromOtel [42 \<mapsto> exampleSpan 0 ''route''] (\<lambda>w r. sentrySpan (requestContext r)) None
     (exampleRequest None) = None"
  using ContinueFromOtel_registry[where r = "exampleRequest (Some \<lparr>SpanID = 42, IsRecording = True\<rparr>)"
          and otelTrace = "\<lparr>SpanID = 42, IsRecording = True\<rparr>"
          and sentrySpanMap = "[42 \<mapsto> exampleSpan 0 ''route'']"
          and S = "exampleSpan 0 ''route''"
          and ?next = "\<lambda>w r. sentrySpan (requestContext r)" and w = None]
        ContinueFromOtel_registry[where r = "exampleRequest (Some \<lparr>SpanID = 42, IsRecording = False\<rparr>)"
          and otelTrace = "\<lparr>SpanID = 42, IsRecording = False\<rparr>"
          and sentrySpanMap = "[42 \<mapsto> exampleSpan 0 ''route'']"
          and S = "exampleSpan 0 ''route''"
          and ?next = "\<lambda>w r. sentrySpan (requestContext r)" and w = None]
        ContinueFromOtel_registry[where r = "exampleRequest (Some \<lparr>SpanID = 7, IsRecording = True\<rparr>)"
          and otelTrace = "\<lparr>SpanID = 7, IsRecording = True\<rparr>"
          and sentrySpanMap = "[42 \<mapsto> exampleSpan 0 ''route'']"
          and S = "exampleSpan 0 ''route''"
          and ?next = "\<lambda>w r. sentrySpan (requestContext r)" and w = None]
        ContinueFromOtel_registry[where r = "exampleRequest None"
          and otelTrace = "\<lparr>SpanID = 7, IsRecording = True\<rparr>"
          and sentrySpanMap = "[42 \<mapsto> exampleSpan 0 ''route'']"
          and S = "exampleSpan 0 ''route''"
          and ?next = "\<lambda>w r. sentrySpan (requestContext r)" and w = None]
  by (simp add: exampleRequest_def SpanFromContext_def)

end
